theory Spec2Isabelle
  imports Complex_Main "HOL-Library.Monad_Syntax"
begin

section \<open>Numbers\<close>

text \<open>
  A TypeScript \<open>number\<close> is a double. The type \<open>number\<close> keeps of it what decides
  where a computation leaves the finite values: a number is a finite value, plus or
  minus infinity, or NaN. An operation on finite values whose exact result is beyond
  the range of the doubles overflows to an infinity, one whose exact result is too small
  to be represented underflows to zero (\<open>js_result\<close>), and infinities and NaN
  propagate as IEEE 754 has it. Within the range the result is the exact real number:
  the rounding to 53 bits is not modelled, and neither is the sign of zero, so what
  is proved of the model holds of the code up to rounding.

  \<open>overflow_threshold\<close> is the least magnitude that rounds to infinity,
  \<open>underflow_threshold\<close> the greatest that rounds to zero (half of the least
  subnormal), and \<open>min_normal\<close> the least normal double; below it a double has fewer
  than 53 bits.

  A division by zero is kept apart: \<open>js_divide\<close> has no result there (JavaScript
  gives an infinity or NaN), so that a function that returns has not divided by zero.

  The components of vectors are numbers, and so is the arithmetic of \<open>Vector2\<close> and of
  \<open>Game.update\<close>. Clock readings, timers, canvas dimensions and the constants of the
  configuration are reals, embedded by \<open>Finite\<close> where they meet a vector.
\<close>

datatype number = Finite real | Infinity | MinusInfinity | NaN

definition overflow_threshold :: real where
  "overflow_threshold = 2 ^ 1024 - 2 ^ 970"

definition underflow_threshold :: real where
  "underflow_threshold = 1 / 2 ^ 1075"

definition min_normal :: real where
  "min_normal = 1 / 2 ^ 1022"

text \<open>
  \<open>underflow r\<close> is the finite result of an operation whose exact result is \<open>r\<close>, and
  \<open>js_result r\<close> the number it returns. \<open>in_range r\<close> says that the operation returns
  \<open>r\<close> itself.
\<close>

definition underflow :: "real \<Rightarrow> real" where
  "underflow r = (if \<bar>r\<bar> \<le> underflow_threshold then 0 else r)"

definition js_result :: "real \<Rightarrow> number" where
  "js_result r =
     (if overflow_threshold \<le> r then Infinity
      else if r \<le> - overflow_threshold then MinusInfinity
      else Finite (underflow r))"

definition in_range :: "real \<Rightarrow> bool" where
  "in_range r \<longleftrightarrow> r = 0 \<or> (underflow_threshold < \<bar>r\<bar> \<and> \<bar>r\<bar> < overflow_threshold)"

fun js_uminus :: "number \<Rightarrow> number" where
  "js_uminus (Finite a) = Finite (- a)"
| "js_uminus Infinity = MinusInfinity"
| "js_uminus MinusInfinity = Infinity"
| "js_uminus NaN = NaN"

fun js_plus :: "number \<Rightarrow> number \<Rightarrow> number" where
  "js_plus NaN y = NaN"
| "js_plus x NaN = NaN"
| "js_plus (Finite a) (Finite b) = js_result (a + b)"
| "js_plus Infinity MinusInfinity = NaN"
| "js_plus MinusInfinity Infinity = NaN"
| "js_plus Infinity y = Infinity"
| "js_plus x Infinity = Infinity"
| "js_plus MinusInfinity y = MinusInfinity"
| "js_plus x MinusInfinity = MinusInfinity"

definition js_minus :: "number \<Rightarrow> number \<Rightarrow> number" where
  "js_minus x y = js_plus x (js_uminus y)"

fun js_times :: "number \<Rightarrow> number \<Rightarrow> number" where
  "js_times NaN y = NaN"
| "js_times x NaN = NaN"
| "js_times (Finite a) (Finite b) = js_result (a * b)"
| "js_times (Finite a) y = (if a = 0 then NaN else if 0 < a then y else js_uminus y)"
| "js_times x (Finite b) = (if b = 0 then NaN else if 0 < b then x else js_uminus x)"
| "js_times Infinity y = y"
| "js_times MinusInfinity y = js_uminus y"

fun js_divide :: "number \<Rightarrow> number \<Rightarrow> number option" where
  "js_divide x (Finite b) =
     (if b = 0 then None
      else case x of
             Finite a \<Rightarrow> Some (js_result (a / b))
           | NaN \<Rightarrow> Some NaN
           | _ \<Rightarrow> Some (if 0 < b then x else js_uminus x))"
| "js_divide NaN y = Some NaN"
| "js_divide x NaN = Some NaN"
| "js_divide (Finite a) y = Some (Finite 0)"
| "js_divide x y = Some NaN"

fun js_sqrt :: "number \<Rightarrow> number" where
  "js_sqrt (Finite a) = (if a < 0 then NaN else Finite (sqrt a))"
| "js_sqrt Infinity = Infinity"
| "js_sqrt MinusInfinity = NaN"
| "js_sqrt NaN = NaN"

text \<open>\<open>x < y\<close> on numbers; a comparison with NaN is false.\<close>

fun js_less :: "number \<Rightarrow> number \<Rightarrow> bool" where
  "js_less NaN y = False"
| "js_less x NaN = False"
| "js_less (Finite a) (Finite b) = (a < b)"
| "js_less x MinusInfinity = False"
| "js_less Infinity y = False"
| "js_less MinusInfinity y = True"
| "js_less x Infinity = True"

text \<open>\<open>Math.max\<close> and \<open>Math.min\<close> of two numbers; NaN if one of them is NaN.\<close>

fun Math_max :: "number \<Rightarrow> number \<Rightarrow> number" where
  "Math_max NaN y = NaN"
| "Math_max x NaN = NaN"
| "Math_max (Finite a) (Finite b) = Finite (max a b)"
| "Math_max Infinity y = Infinity"
| "Math_max x Infinity = Infinity"
| "Math_max MinusInfinity y = y"
| "Math_max x MinusInfinity = x"

fun Math_min :: "number \<Rightarrow> number \<Rightarrow> number" where
  "Math_min NaN y = NaN"
| "Math_min x NaN = NaN"
| "Math_min (Finite a) (Finite b) = Finite (min a b)"
| "Math_min MinusInfinity y = MinusInfinity"
| "Math_min x MinusInfinity = MinusInfinity"
| "Math_min Infinity y = y"
| "Math_min x Infinity = x"

section \<open>utils/Vector2.ts\<close>

text \<open>The fields \<open>x\<close> and \<open>y\<close> of the class are the record fields \<open>v_x\<close> and \<open>v_y\<close>.\<close>

record Vector2 =
  v_x :: number
  v_y :: number

subsection \<open>What each method computes from the field values\<close>

definition Vector2_add :: "Vector2 \<Rightarrow> Vector2 \<Rightarrow> Vector2" where
  "Vector2_add this other =
     \<lparr>v_x = js_plus (v_x this) (v_x other), v_y = js_plus (v_y this) (v_y other)\<rparr>"

definition Vector2_subtract :: "Vector2 \<Rightarrow> Vector2 \<Rightarrow> Vector2" where
  "Vector2_subtract this other =
     \<lparr>v_x = js_minus (v_x this) (v_x other), v_y = js_minus (v_y this) (v_y other)\<rparr>"

definition Vector2_multiply :: "Vector2 \<Rightarrow> number \<Rightarrow> Vector2" where
  "Vector2_multiply this scalar =
     \<lparr>v_x = js_times (v_x this) scalar, v_y = js_times (v_y this) scalar\<rparr>"

definition Vector2_length :: "Vector2 \<Rightarrow> number" where
  "Vector2_length this =
     js_sqrt (js_plus (js_times (v_x this) (v_x this)) (js_times (v_y this) (v_y this)))"

definition Vector2_normalize :: "Vector2 \<Rightarrow> Vector2 option" where
  "Vector2_normalize this =
     (let len = Vector2_length this in
      if len = Finite 0 then Some \<lparr>v_x = Finite 0, v_y = Finite 0\<rparr>
      else do {
        a \<leftarrow> js_divide (v_x this) len;
        b \<leftarrow> js_divide (v_y this) len;
        Some \<lparr>v_x = a, v_y = b\<rparr>
      })"

definition Vector2_clone :: "Vector2 \<Rightarrow> Vector2" where
  "Vector2_clone this = \<lparr>v_x = v_x this, v_y = v_y this\<rparr>"

definition Vector2_distance :: "Vector2 \<Rightarrow> Vector2 \<Rightarrow> number" where
  "Vector2_distance v1 v2 =
     (let dx = js_minus (v_x v2) (v_x v1); dy = js_minus (v_y v2) (v_y v1)
      in js_sqrt (js_plus (js_times dx dx) (js_times dy dy)))"

definition Vector2_zero :: Vector2 where
  "Vector2_zero = \<lparr>v_x = Finite 0, v_y = Finite 0\<rparr>"

subsection \<open>The methods on objects in a store\<close>

text \<open>
  A \<open>Vector2\<close> is a mutable object (its fields are public and assignable), so whether
  a method changes its receiver or an argument is a question about the store. The store
  is the list of the vector objects allocated so far, a reference is an index into it,
  and \<open>new Vector2(a, b)\<close> appends an object and returns its index. A method
  called through a reference that is not allocated has no result (TypeScript's types
  exclude it).
\<close>

type_synonym ref = nat
type_synonym store = "Vector2 list"

definition deref :: "store \<Rightarrow> ref \<Rightarrow> Vector2 option" where
  "deref s r = (if r < length s then Some (s ! r) else None)"

definition new_Vector2 :: "store \<Rightarrow> Vector2 \<Rightarrow> ref \<times> store" where
  "new_Vector2 s v = (length s, s @ [v])"

definition add_obj :: "store \<Rightarrow> ref \<Rightarrow> ref \<Rightarrow> (ref \<times> store) option" where
  "add_obj s this other = do {
     a \<leftarrow> deref s this;
     b \<leftarrow> deref s other;
     Some (new_Vector2 s (Vector2_add a b))
   }"

definition subtract_obj :: "store \<Rightarrow> ref \<Rightarrow> ref \<Rightarrow> (ref \<times> store) option" where
  "subtract_obj s this other = do {
     a \<leftarrow> deref s this;
     b \<leftarrow> deref s other;
     Some (new_Vector2 s (Vector2_subtract a b))
   }"

definition multiply_obj :: "store \<Rightarrow> ref \<Rightarrow> number \<Rightarrow> (ref \<times> store) option" where
  "multiply_obj s this scalar = do {
     a \<leftarrow> deref s this;
     Some (new_Vector2 s (Vector2_multiply a scalar))
   }"

definition normalize_obj :: "store \<Rightarrow> ref \<Rightarrow> (ref \<times> store) option" where
  "normalize_obj s this = do {
     a \<leftarrow> deref s this;
     n \<leftarrow> Vector2_normalize a;
     Some (new_Vector2 s n)
   }"

definition clone_obj :: "store \<Rightarrow> ref \<Rightarrow> (ref \<times> store) option" where
  "clone_obj s this = do {
     a \<leftarrow> deref s this;
     Some (new_Vector2 s (Vector2_clone a))
   }"

text \<open>
  \<open>returns_new s res\<close>: the call returned, its result is a reference that was not
  allocated in \<open>s\<close> and is allocated afterwards, and every object of \<open>s\<close> has the
  field values it had.
\<close>

definition returns_new :: "store \<Rightarrow> (ref \<times> store) option \<Rightarrow> bool" where
  "returns_new s res =
     (case res of
        None \<Rightarrow> False
      | Some (r, s') \<Rightarrow>
          deref s r = None \<and> deref s' r \<noteq> None \<and> take (length s) s' = s)"

section \<open>The environment of a run\<close>

text \<open>
  What a run does to the browser is collected in a record: the lines written to the
  console, the calls made on the renderer, and the number of callbacks registered with
  \<open>requestAnimationFrame\<close> that have not run yet. \<open>logger_enabled\<close> is the static
  field \<open>Logger.enabled\<close>. \<open>update_calls\<close> records the argument of every call of
  \<open>Game.update\<close>, in order; it is an observation of the run, not a field of the program.
\<close>

datatype error = Error string

datatype console_method = Console_log | Console_warn | Console_error

datatype draw_call =
    Clear string
  | DrawCircle Vector2 real string
  | DrawText string Vector2 string real string string

record Browser =
  logger_enabled :: bool
  console :: "(console_method \<times> string) list"
  draw_calls :: "draw_call list"
  animation_frames :: nat
  update_calls :: "real list"

section \<open>utils/Logger.ts\<close>

definition Logger_info :: "string \<Rightarrow> Browser \<Rightarrow> Browser" where
  "Logger_info message b =
     (if \<not> logger_enabled b then b
      else b\<lparr>console := console b @ [(Console_log, ''[INFO] '' @ message)]\<rparr>)"

definition Logger_warn :: "string \<Rightarrow> Browser \<Rightarrow> Browser" where
  "Logger_warn message b =
     (if \<not> logger_enabled b then b
      else b\<lparr>console := console b @ [(Console_warn, ''[WARN] '' @ message)]\<rparr>)"

definition Logger_error :: "string \<Rightarrow> Browser \<Rightarrow> Browser" where
  "Logger_error message b =
     (if \<not> logger_enabled b then b
      else b\<lparr>console := console b @ [(Console_error, ''[ERROR] '' @ message)]\<rparr>)"

section \<open>config/GameConfig.ts\<close>

definition GameConfig_CANVAS_WIDTH :: real where "GameConfig_CANVAS_WIDTH = 1280"
definition GameConfig_CANVAS_HEIGHT :: real where "GameConfig_CANVAS_HEIGHT = 720"
definition GameConfig_DEBUG_MODE :: bool where "GameConfig_DEBUG_MODE = False"

section \<open>core/Input.ts\<close>

text \<open>
  \<open>toLowerCase\<close> on the ASCII letters; the key names this class compares with are
  ASCII.
\<close>

definition toLowerCase :: "string \<Rightarrow> string" where
  "toLowerCase s =
     map (\<lambda>c. case map_of (zip ''ABCDEFGHIJKLMNOPQRSTUVWXYZ'' ''abcdefghijklmnopqrstuvwxyz'') c of
                 Some l \<Rightarrow> l
               | None \<Rightarrow> c) s"

record Input =
  keys :: "string set"
  mousePosition :: Vector2
  mousePressed :: bool

definition Input_new :: Input where
  "Input_new =
     \<lparr>keys = {}, mousePosition = \<lparr>v_x = Finite 0, v_y = Finite 0\<rparr>, mousePressed = False\<rparr>"

text \<open>The listeners registered by \<open>setupEventListeners\<close>.\<close>

definition on_keydown :: "string \<Rightarrow> Input \<Rightarrow> Input" where
  "on_keydown key this = this\<lparr>keys := insert (toLowerCase key) (keys this)\<rparr>"

definition on_keyup :: "string \<Rightarrow> Input \<Rightarrow> Input" where
  "on_keyup key this = this\<lparr>keys := keys this - {toLowerCase key}\<rparr>"

definition on_mousemove :: "real \<Rightarrow> real \<Rightarrow> Input \<Rightarrow> Input" where
  "on_mousemove clientX clientY this = this\<lparr>mousePosition := \<lparr>v_x = Finite clientX, v_y = Finite clientY\<rparr>\<rparr>"

definition on_mousedown :: "Input \<Rightarrow> Input" where
  "on_mousedown this = this\<lparr>mousePressed := True\<rparr>"

definition on_mouseup :: "Input \<Rightarrow> Input" where
  "on_mouseup this = this\<lparr>mousePressed := False\<rparr>"

definition on_blur :: "Input \<Rightarrow> Input" where
  "on_blur this = this\<lparr>keys := {}\<rparr>"

definition isKeyPressed :: "Input \<Rightarrow> string \<Rightarrow> bool" where
  "isKeyPressed this key \<longleftrightarrow> toLowerCase key \<in> keys this"

text \<open>
  \<open>net_keys\<close> is the vector \<open>(x, y)\<close> that \<open>getMovementDirection\<close> builds from the
  keys held, before it normalises it.
\<close>

definition net_keys :: "Input \<Rightarrow> Vector2" where
  "net_keys this =
     (let x = 0; y = 0;
          y = (if isKeyPressed this ''w'' \<or> isKeyPressed this ''arrowup'' then y - 1 else y);
          y = (if isKeyPressed this ''s'' \<or> isKeyPressed this ''arrowdown'' then y + 1 else y);
          x = (if isKeyPressed this ''a'' \<or> isKeyPressed this ''arrowleft'' then x - 1 else x);
          x = (if isKeyPressed this ''d'' \<or> isKeyPressed this ''arrowright'' then x + 1 else x)
      in \<lparr>v_x = Finite x, v_y = Finite y\<rparr>)"

definition getMovementDirection :: "Input \<Rightarrow> Vector2 option" where
  "getMovementDirection this =
     (let direction = net_keys this in
      if js_less (Finite 0) (Vector2_length direction) then Vector2_normalize direction
      else Some direction)"

section \<open>core/Renderer.ts\<close>

text \<open>
  The canvas element, as far as the program reads it: what \<open>getContext('2d')\<close>
  returns (\<open>None\<close> for \<open>null\<close>) and its dimensions. A drawing context is a handle.
\<close>

type_synonym CanvasRenderingContext2D = nat

record HTMLCanvasElement =
  getContext_2d :: "CanvasRenderingContext2D option"
  canvas_width :: real
  canvas_height :: real

record Renderer =
  ctx :: CanvasRenderingContext2D
  width :: real
  height :: real

definition Renderer_new :: "HTMLCanvasElement \<Rightarrow> error + Renderer" where
  "Renderer_new canvas =
     (case getContext_2d canvas of
        None \<Rightarrow> Inl (Error ''Failed to get 2D context from canvas'')
      | Some c \<Rightarrow> Inr \<lparr>ctx = c, width = canvas_width canvas, height = canvas_height canvas\<rparr>)"

definition getWidth :: "Renderer \<Rightarrow> real" where
  "getWidth this = width this"

definition getHeight :: "Renderer \<Rightarrow> real" where
  "getHeight this = height this"

definition Renderer_clear :: "string \<Rightarrow> Browser \<Rightarrow> Browser" where
  "Renderer_clear color b = b\<lparr>draw_calls := draw_calls b @ [Clear color]\<rparr>"

definition drawCircle :: "Vector2 \<Rightarrow> real \<Rightarrow> string \<Rightarrow> Browser \<Rightarrow> Browser" where
  "drawCircle position radius color b =
     b\<lparr>draw_calls := draw_calls b @ [DrawCircle position radius color]\<rparr>"

definition drawText ::
  "string \<Rightarrow> Vector2 \<Rightarrow> string \<Rightarrow> real \<Rightarrow> string \<Rightarrow> string \<Rightarrow> Browser \<Rightarrow> Browser" where
  "drawText text position color fontSize fontFamily align b =
     b\<lparr>draw_calls := draw_calls b @ [DrawText text position color fontSize fontFamily align]\<rparr>"

section \<open>core/Game.ts\<close>

record Game =
  renderer :: Renderer
  input :: Input
  running :: bool
  lastTime :: real
  fps :: nat
  frameCount :: nat
  fpsUpdateTime :: real
  playerPosition :: Vector2
  playerSpeed :: real

type_synonym world = "Game \<times> Browser"

text \<open>The constructor; the exception of \<open>new Renderer(canvas)\<close> passes through it.\<close>

definition Game_new :: "HTMLCanvasElement \<Rightarrow> Browser \<Rightarrow> error + world" where
  "Game_new canvas b =
     (case Renderer_new canvas of
        Inl e \<Rightarrow> Inl e
      | Inr r \<Rightarrow>
          Inr (\<lparr>renderer = r, input = Input_new, running = False, lastTime = 0, fps = 0,
                frameCount = 0, fpsUpdateTime = 0,
                playerPosition = \<lparr>v_x = Finite (getWidth r / 2), v_y = Finite (getHeight r / 2)\<rparr>,
                playerSpeed = 200\<rparr>,
               Logger_info ''Game initialized'' b))"

definition updateFPS :: "real \<Rightarrow> Game \<Rightarrow> Game" where
  "updateFPS deltaTime this =
     (let g = this\<lparr>frameCount := frameCount this + 1,
                   fpsUpdateTime := fpsUpdateTime this + deltaTime\<rparr>
      in if fpsUpdateTime g \<ge> 1.0
         then g\<lparr>fps := frameCount g, frameCount := 0, fpsUpdateTime := 0\<rparr>
         else g)"

text \<open>
  \<open>update\<close> moves the player and then assigns the clamped coordinates to the fields of
  the new position, \<open>x\<close> first. It has no result when computing the direction divides
  by zero.
\<close>

definition update :: "number \<Rightarrow> Game \<Rightarrow> Game option" where
  "update deltaTime this = do {
     direction \<leftarrow> getMovementDirection (input this);
     let p = Vector2_add (playerPosition this)
               (Vector2_multiply direction (js_times (Finite (playerSpeed this)) deltaTime));
     let p = p\<lparr>v_x := Math_max (Finite 20)
                        (Math_min (Finite (getWidth (renderer this) - 20)) (v_x p))\<rparr>;
     let p = p\<lparr>v_y := Math_max (Finite 20)
                        (Math_min (Finite (getHeight (renderer this) - 20)) (v_y p))\<rparr>;
     Some (this\<lparr>playerPosition := p\<rparr>)
   }"

fun show_nat :: "nat \<Rightarrow> string" where
  "show_nat n =
     (if n < 10 then [''0123456789'' ! n]
      else show_nat (n div 10) @ [''0123456789'' ! (n mod 10)])"

definition render :: "Game \<Rightarrow> Browser \<Rightarrow> Browser" where
  "render this b =
     (let b = Renderer_clear ''#1a1a1a'' b;
          b = drawCircle (playerPosition this) 20 ''#00ff00'' b;
          b = (if GameConfig_DEBUG_MODE
               then drawText (''FPS: '' @ show_nat (fps this)) \<lparr>v_x = Finite 10, v_y = Finite 20\<rparr>
                      ''#ffffff'' 16 ''Arial'' ''left'' b
               else b)
      in drawText ''Use WASD or Arrow Keys to move''
           \<lparr>v_x = Finite (getWidth (renderer this) / 2), v_y = Finite 30\<rparr>
           ''#ffffff'' 16 ''Arial'' ''center'' b)"

definition requestAnimationFrame :: "Browser \<Rightarrow> Browser" where
  "requestAnimationFrame b = b\<lparr>animation_frames := animation_frames b + 1\<rparr>"

text \<open>
  \<open>gameLoop currentTime\<close> is one invocation of the arrow function \<open>gameLoop\<close>;
  \<open>currentTime\<close> is what \<open>performance.now()\<close> returns in it, in milliseconds.
\<close>

definition gameLoop :: "real \<Rightarrow> world \<Rightarrow> world option" where
  "gameLoop currentTime w =
     (case w of (this, b) \<Rightarrow>
        if \<not> running this then Some (this, b)
        else do {
          let deltaTime = (currentTime - lastTime this) / 1000;
          let this = this\<lparr>lastTime := currentTime\<rparr>;
          let this = updateFPS deltaTime this;
          let b = b\<lparr>update_calls := update_calls b @ [deltaTime]\<rparr>;
          this \<leftarrow> update (Finite deltaTime) this;
          let b = render this b;
          Some (this, requestAnimationFrame b)
        })"

text \<open>
  \<open>start now1 now2\<close>: \<open>now1\<close> is the clock reading stored in \<open>lastTime\<close>,
  \<open>now2\<close> the one taken by the first invocation of \<open>gameLoop\<close>.
\<close>

definition start :: "real \<Rightarrow> real \<Rightarrow> world \<Rightarrow> world option" where
  "start now1 now2 w =
     (case w of (this, b) \<Rightarrow>
        if running this then Some (this, Logger_warn ''Game is already running'' b)
        else do {
          let this = this\<lparr>running := True, lastTime := now1\<rparr>;
          (this, b) \<leftarrow> gameLoop now2 (this, b);
          Some (this, Logger_info ''Game started'' b)
        })"

definition stop :: "world \<Rightarrow> world" where
  "stop w = (case w of (this, b) \<Rightarrow> (this\<lparr>running := False\<rparr>, Logger_info ''Game stopped'' b))"

text \<open>
  The browser runs one registered animation-frame callback: it leaves the queue and
  \<open>gameLoop\<close> is invoked. With an empty queue nothing runs.
\<close>

definition run_animation_frame :: "real \<Rightarrow> world \<Rightarrow> world option" where
  "run_animation_frame currentTime w =
     (case w of (this, b) \<Rightarrow>
        if animation_frames b = 0 then Some (this, b)
        else gameLoop currentTime (this, b\<lparr>animation_frames := animation_frames b - 1\<rparr>))"

fun run_animation_frames :: "real list \<Rightarrow> world \<Rightarrow> world option" where
  "run_animation_frames [] w = Some w"
| "run_animation_frames (t # ts) w =
     (case run_animation_frame t w of
        None \<Rightarrow> None
      | Some w' \<Rightarrow> run_animation_frames ts w')"

section \<open>main.ts\<close>

text \<open>
  The entry point. \<open>element\<close> is what \<open>document.getElementById('game-canvas')\<close>
  returns. The result is the exception that reaches the top level, or the world after
  \<open>game.start()\<close> and the last log line.
\<close>

definition main ::
  "HTMLCanvasElement option \<Rightarrow> real \<Rightarrow> real \<Rightarrow> Browser \<Rightarrow> (error \<times> Browser + world) option" where
  "main element now1 now2 b =
     (let b = Logger_info ''Elemental Survivors - Starting...'' b in
      case element of
        None \<Rightarrow>
          Some (Inl (Error ''Canvas element not found'',
                     Logger_error ''Canvas element not found'' b))
      | Some canvas \<Rightarrow>
          (let canvas = canvas\<lparr>canvas_width := GameConfig_CANVAS_WIDTH,
                                canvas_height := GameConfig_CANVAS_HEIGHT\<rparr>
           in case Game_new canvas b of
                Inl e \<Rightarrow> Some (Inl (e, b))
              | Inr game \<Rightarrow>
                  (case start now1 now2 game of
                     None \<Rightarrow> None
                   | Some (this, b) \<Rightarrow>
                       Some (Inr (this,
                         Logger_info ''Elemental Survivors - Phase 1: Core Engine Running'' b)))))"

section \<open>config/EnemyConfig.ts\<close>

definition EnemyConfig_MAX_ENEMIES :: nat where "EnemyConfig_MAX_ENEMIES = 100"

section \<open>The spawn system of the design document\<close>

text \<open>
  Modelled from the spec: the class \<open>BasicEnemy\<close> and the object \<open>entityManager\<close> that
  \<open>SpawnSystem.spawnEnemy\<close> uses are not in the sources. An enemy is an entity with a
  position and an \<open>active\<close> flag, and it is active when it is created; the entity
  registry stores what is added to it, so it is the list of the entities added, and
  the population is the number of its active entities.
\<close>

record BasicEnemy =
  position :: Vector2
  active :: bool

definition BasicEnemy_new :: "Vector2 \<Rightarrow> BasicEnemy" where
  "BasicEnemy_new p = \<lparr>position = p, active = True\<rparr>"

type_synonym EntityManager = "BasicEnemy list"

definition addEntity :: "BasicEnemy \<Rightarrow> EntityManager \<Rightarrow> EntityManager" where
  "addEntity enemy em = em @ [enemy]"

definition activeEnemies :: "EntityManager \<Rightarrow> nat" where
  "activeEnemies em = length (filter active em)"

text \<open>
  The class \<open>SpawnSystem\<close> as the design document gives it. \<open>random\<close> is the value
  that \<open>Math.random()\<close> returns in \<open>spawnEnemy\<close>.
\<close>

record SpawnSystem =
  spawnTimer :: real
  gameTime :: real

definition SpawnSystem_new :: SpawnSystem where
  "SpawnSystem_new = \<lparr>spawnTimer = 0, gameTime = 0\<rparr>"

definition getSpawnInterval :: "SpawnSystem \<Rightarrow> real" where
  "getSpawnInterval this =
     (let start = 2.0; min_interval = 0.3;
          progress = min (gameTime this / 600) 1
      in start - (start - min_interval) * progress)"

definition spawnEnemy :: "real \<Rightarrow> Vector2 \<Rightarrow> EntityManager \<Rightarrow> EntityManager" where
  "spawnEnemy random playerPos em =
     (let angle = random * pi * 2;
          distance = 800;
          x = js_plus (v_x playerPos) (Finite (cos angle * distance));
          y = js_plus (v_y playerPos) (Finite (sin angle * distance));
          enemy = BasicEnemy_new \<lparr>v_x = x, v_y = y\<rparr>
      in addEntity enemy em)"

definition SpawnSystem_update ::
  "real \<Rightarrow> Vector2 \<Rightarrow> real \<Rightarrow> SpawnSystem \<times> EntityManager \<Rightarrow> SpawnSystem \<times> EntityManager" where
  "SpawnSystem_update deltaTime playerPos random st =
     (case st of (this, em) \<Rightarrow>
        let this = this\<lparr>gameTime := gameTime this + deltaTime\<rparr>;
            this = this\<lparr>spawnTimer := spawnTimer this + deltaTime\<rparr>;
            spawnInterval = getSpawnInterval this
        in if spawnTimer this \<ge> spawnInterval
           then (this\<lparr>spawnTimer := 0\<rparr>, spawnEnemy random playerPos em)
           else (this, em))"

text \<open>A run of the scheduler: one \<open>update\<close> per tick, each with its \<open>deltaTime\<close> and
  its random number.\<close>

fun SpawnSystem_run ::
  "(real \<times> real) list \<Rightarrow> Vector2 \<Rightarrow> SpawnSystem \<times> EntityManager \<Rightarrow> SpawnSystem \<times> EntityManager" where
  "SpawnSystem_run [] playerPos st = st"
| "SpawnSystem_run ((deltaTime, random) # ticks) playerPos st =
     SpawnSystem_run ticks playerPos (SpawnSystem_update deltaTime playerPos random st)"

section \<open>Example inputs\<close>

text \<open>
  A browser in which nothing has happened yet, the canvas of the page with a drawing
  context, and a running game on it with the key \<open>d\<close> held, whose last tick was
  at time 0.
\<close>

definition example_browser :: Browser where
  "example_browser =
     \<lparr>logger_enabled = True, console = [], draw_calls = [], animation_frames = 0,
      update_calls = []\<rparr>"

definition example_canvas :: HTMLCanvasElement where
  "example_canvas = \<lparr>getContext_2d = Some 0, canvas_width = 1280, canvas_height = 720\<rparr>"

definition example_game :: Game where
  "example_game =
     \<lparr>renderer = \<lparr>ctx = 0, width = 1280, height = 720\<rparr>,
      input = \<lparr>keys = {''d''}, mousePosition = \<lparr>v_x = Finite 0, v_y = Finite 0\<rparr>,
               mousePressed = False\<rparr>,
      running = True, lastTime = 0, fps = 0, frameCount = 0, fpsUpdateTime = 0,
      playerPosition = \<lparr>v_x = Finite 640, v_y = Finite 360\<rparr>, playerSpeed = 200\<rparr>"

definition origin :: Vector2 where
  "origin = \<lparr>v_x = Finite 0, v_y = Finite 0\<rparr>"

section \<open>Numbers: range facts\<close>

lemma threshold_facts:
  "0 < underflow_threshold" "underflow_threshold < 1 / 4" "4 < overflow_threshold"
  "0 < min_normal" "4 * underflow_threshold \<le> min_normal"
  "4 * underflow_threshold \<le> min_normal / 2 ^ 50"
  by (simp_all add: underflow_threshold_def overflow_threshold_def min_normal_def)

lemma js_result_in_range: "in_range r \<Longrightarrow> js_result r = Finite r"
  using threshold_facts(1,3)
  by (auto simp: in_range_def js_result_def underflow_def)

lemma js_result_finite:
  "\<bar>r\<bar> < overflow_threshold \<Longrightarrow> js_result r = Finite (underflow r)"
  by (auto simp: js_result_def)

lemma js_result_Finite_bound:
  assumes "js_result r = Finite q"
  shows "\<bar>q\<bar> < overflow_threshold"
proof -
  have "\<bar>r\<bar> < overflow_threshold" and "q = underflow r"
    using assms by (auto simp: js_result_def split: if_splits)
  moreover have "\<bar>underflow r\<bar> \<le> \<bar>r\<bar>"
    by (simp add: underflow_def)
  ultimately show ?thesis
    by simp
qed

lemma js_result_not_NaN: "js_result r \<noteq> NaN"
  by (simp add: js_result_def)

lemma in_range_moderate:
  assumes "r = 0 \<or> (1 / 4 \<le> \<bar>r\<bar> \<and> \<bar>r\<bar> \<le> 4)"
  shows "in_range r"
  using assms threshold_facts(2,3) by (auto simp: in_range_def)

lemma in_range_examples:
  "in_range 0" "in_range 4" "in_range 6" "in_range 200" "in_range 360" "in_range 800"
  "in_range 840"
  using threshold_facts(2) by (simp_all add: in_range_def overflow_threshold_def)

lemma js_divide_total: "y \<noteq> Finite 0 \<Longrightarrow> \<exists>q. js_divide x y = Some q"
  by (cases y; cases x) auto





section \<open>Vector2: normalisation\<close>

lemma Vector2_length_zero: "Vector2_length Vector2_zero = Finite 0"
  using threshold_facts(3)
  by (simp add: Vector2_length_def Vector2_zero_def js_result_def underflow_def)


lemma Vector2_normalize_total: "\<exists>n. Vector2_normalize v = Some n"
proof (cases "Vector2_length v = Finite 0")
  case True
  then show ?thesis
    by (simp add: Vector2_normalize_def Let_def)
next
  case False
  obtain a b where "js_divide (v_x v) (Vector2_length v) = Some a"
    and "js_divide (v_y v) (Vector2_length v) = Some b"
    using js_divide_total [OF False] by blast
  then show ?thesis
    using False by (simp add: Vector2_normalize_def Let_def)
qed

lemma Vector2_length_exact:
  assumes "in_range (a * a)" and "in_range (b * b)" and "in_range (a * a + b * b)"
  shows "Vector2_length \<lparr>v_x = Finite a, v_y = Finite b\<rparr> = Finite (sqrt (a * a + b * b))"
proof -
  have "0 \<le> a * a + b * b"
    by simp
  then show ?thesis
    using assms by (simp add: Vector2_length_def js_result_in_range not_less)
qed

lemma Vector2_normalize_exact:
  assumes "in_range (a * a)" and "in_range (b * b)" and "in_range (a * a + b * b)"
    and "0 < a * a + b * b"
    and "in_range (a / sqrt (a * a + b * b))" and "in_range (b / sqrt (a * a + b * b))"
  shows "Vector2_normalize \<lparr>v_x = Finite a, v_y = Finite b\<rparr> =
           Some \<lparr>v_x = Finite (a / sqrt (a * a + b * b)), v_y = Finite (b / sqrt (a * a + b * b))\<rparr>"
proof -
  have "sqrt (a * a + b * b) \<noteq> 0"
    using assms(4) by auto
  then show ?thesis
    using assms(5,6) Vector2_length_exact [OF assms(1-3)]
    by (simp add: Vector2_normalize_def js_result_in_range Let_def)
qed

subsection \<open>Vectors whose squared length is a normal double\<close>









lemma normalize_underflows:
  "Vector2_normalize \<lparr>v_x = Finite (1 / 10 ^ 200), v_y = Finite (1 / 10 ^ 200)\<rparr>
     = Some Vector2_zero"
proof -
  have "\<bar>(1::real) / 10 ^ 200 * (1 / 10 ^ 200)\<bar> \<le> underflow_threshold"
    by (simp add: underflow_threshold_def)
  moreover have "\<bar>(1::real) / 10 ^ 200 * (1 / 10 ^ 200)\<bar> < overflow_threshold"
    by (simp add: overflow_threshold_def)
  ultimately have "js_times (Finite (1 / 10 ^ 200)) (Finite (1 / 10 ^ 200)) = Finite 0"
    by (simp add: js_result_finite underflow_def)
  then show ?thesis
    using in_range_examples(1)
    by (simp add: Vector2_normalize_def Vector2_length_def Vector2_zero_def js_result_in_range
        Let_def)
qed

section \<open>Vector2: the operations allocate and do not mutate\<close>

lemma returns_new_alloc: "returns_new s (Some (new_Vector2 s v))"
  by (simp add: returns_new_def new_Vector2_def deref_def)

lemma deref_Some: "r < length s \<Longrightarrow> deref s r = Some (s ! r)"
  by (simp add: deref_def)

text \<open>
  Claim C8. Each of \<open>add\<close>, \<open>subtract\<close>, \<open>multiply\<close>, \<open>normalize\<close> and \<open>clone\<close>,
  called on allocated vectors, returns a newly allocated vector and leaves the fields
  of every vector that existed before the call (the receiver and the argument among
  them, also when they are the same object) as they were.
\<close>

theorem vector_operations_return_new:
  assumes "this < length s" and "other < length s"
  shows "returns_new s (add_obj s this other) \<and>
         returns_new s (subtract_obj s this other) \<and>
         returns_new s (multiply_obj s this scalar) \<and>
         returns_new s (normalize_obj s this) \<and>
         returns_new s (clone_obj s this)"
proof -
  obtain n where n: "Vector2_normalize (s ! this) = Some n"
    using Vector2_normalize_total by blast
  show ?thesis
    using assms n
    by (simp add: add_obj_def subtract_obj_def multiply_obj_def normalize_obj_def
        clone_obj_def deref_Some returns_new_alloc)
qed

theorem vector_operations_return_new_witness:
  "returns_new [\<lparr>v_x = Finite 3, v_y = Finite 4\<rparr>, \<lparr>v_x = Finite 1, v_y = Finite 2\<rparr>]
     (add_obj [\<lparr>v_x = Finite 3, v_y = Finite 4\<rparr>, \<lparr>v_x = Finite 1, v_y = Finite 2\<rparr>] 0 1) \<and>
   returns_new [\<lparr>v_x = Finite 3, v_y = Finite 4\<rparr>, \<lparr>v_x = Finite 1, v_y = Finite 2\<rparr>]
     (subtract_obj [\<lparr>v_x = Finite 3, v_y = Finite 4\<rparr>, \<lparr>v_x = Finite 1, v_y = Finite 2\<rparr>] 0 0) \<and>
   returns_new [\<lparr>v_x = Finite 3, v_y = Finite 4\<rparr>, \<lparr>v_x = Finite 1, v_y = Finite 2\<rparr>]
     (multiply_obj [\<lparr>v_x = Finite 3, v_y = Finite 4\<rparr>, \<lparr>v_x = Finite 1, v_y = Finite 2\<rparr>] 0 (Finite 2)) \<and>
   returns_new [\<lparr>v_x = Finite 3, v_y = Finite 4\<rparr>, \<lparr>v_x = Finite 1, v_y = Finite 2\<rparr>]
     (normalize_obj [\<lparr>v_x = Finite 3, v_y = Finite 4\<rparr>, \<lparr>v_x = Finite 1, v_y = Finite 2\<rparr>] 0) \<and>
   returns_new [\<lparr>v_x = Finite 3, v_y = Finite 4\<rparr>, \<lparr>v_x = Finite 1, v_y = Finite 2\<rparr>]
     (clone_obj [\<lparr>v_x = Finite 3, v_y = Finite 4\<rparr>, \<lparr>v_x = Finite 1, v_y = Finite 2\<rparr>] 0)"
  using vector_operations_return_new
          [of 0 "[\<lparr>v_x = Finite 3, v_y = Finite 4\<rparr>, \<lparr>v_x = Finite 1, v_y = Finite 2\<rparr>]" 1 "Finite 2"]
        vector_operations_return_new
          [of 0 "[\<lparr>v_x = Finite 3, v_y = Finite 4\<rparr>, \<lparr>v_x = Finite 1, v_y = Finite 2\<rparr>]" 0 "Finite 2"]
  by simp

lemma add_obj_example:
  "add_obj [\<lparr>v_x = Finite 3, v_y = Finite 4\<rparr>, \<lparr>v_x = Finite 1, v_y = Finite 2\<rparr>] 0 1
     = Some (2, [\<lparr>v_x = Finite 3, v_y = Finite 4\<rparr>, \<lparr>v_x = Finite 1, v_y = Finite 2\<rparr>,
                \<lparr>v_x = Finite 4, v_y = Finite 6\<rparr>])"
  by (simp add: add_obj_def deref_def new_Vector2_def Vector2_add_def js_result_in_range
      in_range_examples)

section \<open>Input: the movement direction\<close>

lemma toLowerCase_literals [simp]:
  "toLowerCase ''w'' = ''w''" "toLowerCase ''a'' = ''a''"
  "toLowerCase ''s'' = ''s''" "toLowerCase ''d'' = ''d''"
  "toLowerCase ''arrowup'' = ''arrowup''" "toLowerCase ''arrowdown'' = ''arrowdown''"
  "toLowerCase ''arrowleft'' = ''arrowleft''" "toLowerCase ''arrowright'' = ''arrowright''"
  by (simp_all add: toLowerCase_def)

lemma key_vector_normalize:
  assumes a: "a \<in> {-1, 0, 1}" and b: "b \<in> {-1, 0, 1}" and nz: "\<not> (a = 0 \<and> b = 0)"
  shows "js_less (Finite 0) (Vector2_length \<lparr>v_x = Finite a, v_y = Finite b\<rparr>) \<and>
         (\<exists>x y. Vector2_normalize \<lparr>v_x = Finite a, v_y = Finite b\<rparr>
                   = Some \<lparr>v_x = Finite x, v_y = Finite y\<rparr> \<and>
                \<bar>x\<bar> \<le> 1 \<and> \<bar>y\<bar> \<le> 1 \<and>
                Vector2_length \<lparr>v_x = Finite x, v_y = Finite y\<rparr> = Finite 1)"
proof -
  define s where "s = a * a + b * b"
  define l where "l = sqrt s"
  define x where "x = a / l"
  define y where "y = b / l"
  have aa: "a * a = 0 \<or> a * a = 1" and bb: "b * b = 0 \<or> b * b = 1"
    using a b by auto
  have s12: "s = 1 \<or> s = 2"
    using a b nz by (auto simp: s_def)
  then have s_pos: "0 < s" and s_ge: "1 \<le> s" and s_le: "s \<le> 4"
    by auto
  have l1: "1 \<le> l"
    using s_ge by (simp add: l_def)
  have "l \<le> sqrt 4"
    unfolding l_def using s_le by (simp only: real_sqrt_le_iff)
  moreover have "sqrt 4 = (2::real)"
    using real_sqrt_abs [of 2] by simp
  ultimately have l2: "l \<le> 2"
    by simp
  have ll: "l * l = s"
    using s_pos by (simp add: l_def)
  have ra: "in_range (a * a)" and rb: "in_range (b * b)" and rs: "in_range (a * a + b * b)"
    using aa bb s12 by (auto intro!: in_range_moderate simp: s_def)
  have len: "Vector2_length \<lparr>v_x = Finite a, v_y = Finite b\<rparr> = Finite l"
    using Vector2_length_exact [OF ra rb rs] by (simp add: l_def s_def)
  have xabs: "x = 0 \<or> (1 / 4 \<le> \<bar>x\<bar> \<and> \<bar>x\<bar> \<le> 4)" and x1: "\<bar>x\<bar> \<le> 1"
    using a l1 l2 by (auto simp: x_def field_simps)
  have yabs: "y = 0 \<or> (1 / 4 \<le> \<bar>y\<bar> \<and> \<bar>y\<bar> \<le> 4)" and y1: "\<bar>y\<bar> \<le> 1"
    using b l1 l2 by (auto simp: y_def field_simps)
  have rx: "in_range (a / sqrt (a * a + b * b))" and ry: "in_range (b / sqrt (a * a + b * b))"
    using xabs yabs in_range_moderate by (simp_all add: x_def y_def l_def s_def)
  have norm: "Vector2_normalize \<lparr>v_x = Finite a, v_y = Finite b\<rparr>
               = Some \<lparr>v_x = Finite x, v_y = Finite y\<rparr>"
    using Vector2_normalize_exact [OF ra rb rs _ rx ry] s_pos
    by (simp add: x_def y_def l_def s_def)
  have xx: "x * x = a * a / s" and yy: "y * y = b * b / s"
    using ll by (simp_all add: x_def y_def)
  have "x * x + y * y = s / s"
    unfolding xx yy s_def by (simp only: add_divide_distrib)
  then have sum: "x * x + y * y = 1"
    using s_pos by simp
  have rxx: "in_range (x * x)" and ryy: "in_range (y * y)"
    using aa bb s12 by (auto intro!: in_range_moderate simp: xx yy)
  have "in_range (x * x + y * y)"
    by (simp add: sum in_range_moderate)
  then have "Vector2_length \<lparr>v_x = Finite x, v_y = Finite y\<rparr> = Finite 1"
    using Vector2_length_exact [OF rxx ryy] by (simp add: sum)
  moreover have "js_less (Finite 0) (Vector2_length \<lparr>v_x = Finite a, v_y = Finite b\<rparr>)"
    using l1 by (simp add: len)
  ultimately show ?thesis
    using norm x1 y1 by blast
qed

lemma net_keys_values:
  "\<exists>a b. net_keys i = \<lparr>v_x = Finite a, v_y = Finite b\<rparr> \<and> a \<in> {-1, 0, 1} \<and> b \<in> {-1, 0, 1}"
  by (simp add: net_keys_def Let_def)

lemma net_keys_zero_iff:
  "net_keys i = Vector2_zero \<longleftrightarrow>
     ((isKeyPressed i ''w'' \<or> isKeyPressed i ''arrowup'') =
      (isKeyPressed i ''s'' \<or> isKeyPressed i ''arrowdown'')) \<and>
     ((isKeyPressed i ''a'' \<or> isKeyPressed i ''arrowleft'') =
      (isKeyPressed i ''d'' \<or> isKeyPressed i ''arrowright''))"
  by (simp add: net_keys_def Let_def Vector2_zero_def)

lemma getMovementDirection_cases:
  "\<exists>x y. getMovementDirection i = Some \<lparr>v_x = Finite x, v_y = Finite y\<rparr> \<and>
       \<bar>x\<bar> \<le> 1 \<and> \<bar>y\<bar> \<le> 1 \<and>
       (if net_keys i = Vector2_zero then x = 0 \<and> y = 0
        else Vector2_length \<lparr>v_x = Finite x, v_y = Finite y\<rparr> = Finite 1)"
proof -
  obtain a b where n: "net_keys i = \<lparr>v_x = Finite a, v_y = Finite b\<rparr>"
    and a: "a \<in> {-1, 0, 1}" and b: "b \<in> {-1, 0, 1}"
    using net_keys_values by blast
  show ?thesis
  proof (cases "a = 0 \<and> b = 0")
    case True
    then have z: "net_keys i = Vector2_zero"
      by (simp add: n Vector2_zero_def)
    then have "getMovementDirection i = Some \<lparr>v_x = Finite 0, v_y = Finite 0\<rparr>"
      using Vector2_length_zero
      by (simp add: getMovementDirection_def Let_def Vector2_zero_def)
    then show ?thesis
      using z by simp
  next
    case False
    then have nz: "net_keys i \<noteq> Vector2_zero"
      by (auto simp: n Vector2_zero_def)
    have "getMovementDirection i = Vector2_normalize \<lparr>v_x = Finite a, v_y = Finite b\<rparr>"
      using key_vector_normalize [OF a b False] by (simp add: getMovementDirection_def n Let_def)
    then show ?thesis
      using key_vector_normalize [OF a b False] nz by auto
  qed
qed

lemma getMovementDirection_total: "\<exists>d. getMovementDirection i = Some d"
  using getMovementDirection_cases [of i] by blast

text \<open>
  Claim C5. For every set of held keys, \<open>getMovementDirection\<close> returns a vector. It
  is the zero vector when the vertical keys cancel (neither or both of up and down are
  held) and the horizontal keys cancel too, which includes no movement key being held;
  otherwise it has length 1, also on the diagonals.
\<close>

theorem movement_direction_normalized:
  "\<exists>d. getMovementDirection i = Some d \<and>
     (if ((isKeyPressed i ''w'' \<or> isKeyPressed i ''arrowup'') =
          (isKeyPressed i ''s'' \<or> isKeyPressed i ''arrowdown'')) \<and>
         ((isKeyPressed i ''a'' \<or> isKeyPressed i ''arrowleft'') =
          (isKeyPressed i ''d'' \<or> isKeyPressed i ''arrowright''))
      then d = Vector2_zero
      else Vector2_length d = Finite 1)"
proof -
  obtain x y where d: "getMovementDirection i = Some \<lparr>v_x = Finite x, v_y = Finite y\<rparr>"
    and c: "if net_keys i = Vector2_zero then x = 0 \<and> y = 0
            else Vector2_length \<lparr>v_x = Finite x, v_y = Finite y\<rparr> = Finite 1"
    using getMovementDirection_cases [of i] by blast
  show ?thesis
    using d c by (auto simp: net_keys_zero_iff [symmetric] Vector2_zero_def)
qed

theorem movement_direction_normalized_witness:
  "(\<exists>d. getMovementDirection
           \<lparr>keys = {''w'', ''d''}, mousePosition = Vector2_zero, mousePressed = False\<rparr>
         = Some d \<and> Vector2_length d = Finite 1) \<and>
   getMovementDirection
     \<lparr>keys = {''w'', ''s''}, mousePosition = Vector2_zero, mousePressed = False\<rparr>
     = Some Vector2_zero \<and>
   getMovementDirection Input_new = Some Vector2_zero"
  using movement_direction_normalized
          [of "\<lparr>keys = {''w'', ''d''}, mousePosition = Vector2_zero, mousePressed = False\<rparr>"]
        movement_direction_normalized
          [of "\<lparr>keys = {''w'', ''s''}, mousePosition = Vector2_zero, mousePressed = False\<rparr>"]
        movement_direction_normalized [of Input_new]
  by (simp add: isKeyPressed_def Input_new_def)

section \<open>Game: helper facts\<close>

lemma update_total: "\<exists>this'. update dt this = Some this'"
  using getMovementDirection_total [of "input this"] by (auto simp: update_def Let_def)

lemma update_flags:
  "update dt this = Some this' \<Longrightarrow> running this' = running this \<and> lastTime this' = lastTime this"
  by (auto simp: update_def Let_def split: bind_splits)

lemma updateFPS_fields [simp]:
  "running (updateFPS dt this) = running this"
  "lastTime (updateFPS dt this) = lastTime this"
  "renderer (updateFPS dt this) = renderer this"
  "input (updateFPS dt this) = input this"
  "playerPosition (updateFPS dt this) = playerPosition this"
  "playerSpeed (updateFPS dt this) = playerSpeed this"
  by (simp_all add: updateFPS_def Let_def)

lemma render_fields [simp]:
  "update_calls (render this b) = update_calls b"
  "animation_frames (render this b) = animation_frames b"
  "console (render this b) = console b"
  "logger_enabled (render this b) = logger_enabled b"
  by (simp_all add: render_def Renderer_clear_def drawCircle_def drawText_def Let_def)

lemma gameLoop_stopped: "\<not> running this \<Longrightarrow> gameLoop t (this, b) = Some (this, b)"
  by (simp add: gameLoop_def)

lemma gameLoop_running:
  assumes "running this"
  shows "\<exists>this'. update (Finite ((t - lastTime this) / 1000))
                   (updateFPS ((t - lastTime this) / 1000) (this\<lparr>lastTime := t\<rparr>)) = Some this' \<and>
           gameLoop t (this, b) =
             Some (this', requestAnimationFrame
                     (render this' (b\<lparr>update_calls := update_calls b @ [(t - lastTime this) / 1000]\<rparr>)))"
proof -
  obtain this' where u: "update (Finite ((t - lastTime this) / 1000))
      (updateFPS ((t - lastTime this) / 1000) (this\<lparr>lastTime := t\<rparr>)) = Some this'"
    using update_total by blast
  then show ?thesis
    using assms by (simp add: gameLoop_def Let_def)
qed

section \<open>The frame driver: delta time\<close>

text \<open>
  Claim C1 (as amended). On every tick of the running loop the value passed to
  \<open>update\<close> is the elapsed time since the previous tick in seconds,
  \<open>(currentTime - lastTime) / 1000\<close>, as it is: it is at most 0.1 exactly when at
  most 100 ms have elapsed. The tick also stores \<open>currentTime\<close> in \<open>lastTime\<close>.
\<close>

theorem tick_passes_elapsed_time:
  assumes "running this"
  shows "\<exists>this' b'. gameLoop currentTime (this, b) = Some (this', b') \<and>
           update_calls b' = update_calls b @ [(currentTime - lastTime this) / 1000] \<and>
           lastTime this' = currentTime \<and>
           ((currentTime - lastTime this) / 1000 \<le> 0.1 \<longleftrightarrow> currentTime - lastTime this \<le> 100)"
proof -
  obtain this' where u: "update (Finite ((currentTime - lastTime this) / 1000))
      (updateFPS ((currentTime - lastTime this) / 1000) (this\<lparr>lastTime := currentTime\<rparr>)) = Some this'"
    and g: "gameLoop currentTime (this, b) =
             Some (this', requestAnimationFrame
                     (render this' (b\<lparr>update_calls := update_calls b @ [(currentTime - lastTime this) / 1000]\<rparr>)))"
    using gameLoop_running [OF assms] by blast
  have "lastTime this' = currentTime"
    using update_flags [OF u] by simp
  moreover have "(currentTime - lastTime this) / 1000 \<le> 0.1 \<longleftrightarrow> currentTime - lastTime this \<le> 100"
    by auto
  ultimately show ?thesis
    using g by (simp only: requestAnimationFrame_def) simp
qed

theorem tick_passes_elapsed_time_witness:
  "\<exists>this' b'. gameLoop 16 (example_game, example_browser) = Some (this', b') \<and>
     update_calls b' = [0.016] \<and> lastTime this' = 16"
proof -
  have "running example_game" by (simp add: example_game_def)
  from tick_passes_elapsed_time [OF this, of 16 example_browser]
  show ?thesis by (simp add: example_game_def example_browser_def)
qed

text \<open>
  Claim C1 fails as stated: a tick of the example game 1000 ms after the previous one
  calls \<open>update\<close> with a delta time of 1 second, which is more than 0.1.
\<close>

theorem deltaTime_not_clamped:
  "map_option (update_calls \<circ> snd) (gameLoop 1000 (example_game, example_browser)) = Some [1]
   \<and> \<not> (1::real) \<le> 0.1"
proof -
  have "running example_game" by (simp add: example_game_def)
  from gameLoop_running [OF this, of 1000 example_browser]
  show ?thesis by (auto simp: example_game_def example_browser_def requestAnimationFrame_def)
qed

section \<open>Renderer: the drawing context\<close>

lemma Logger_fields [simp]:
  "animation_frames (Logger_info m b) = animation_frames b"
  "draw_calls (Logger_info m b) = draw_calls b"
  "update_calls (Logger_info m b) = update_calls b"
  "animation_frames (Logger_warn m b) = animation_frames b"
  "draw_calls (Logger_warn m b) = draw_calls b"
  "update_calls (Logger_warn m b) = update_calls b"
  "animation_frames (Logger_error m b) = animation_frames b"
  "draw_calls (Logger_error m b) = draw_calls b"
  "update_calls (Logger_error m b) = update_calls b"
  by (simp_all add: Logger_info_def Logger_warn_def Logger_error_def)

text \<open>
  Claim C6. Constructing the renderer throws exactly when the canvas has no 2D drawing
  context, and so does constructing the game; with a context the renderer is
  constructed. At startup the exception reaches the top level of \<open>main\<close>: the entry
  point ends with it, having written its first log line and nothing else, so no game
  is started, nothing is drawn and no animation frame is requested.
\<close>

theorem renderer_throws_iff_no_context:
  "(isl (Renderer_new canvas) \<longleftrightarrow> getContext_2d canvas = None) \<and>
   (isl (Game_new canvas b) \<longleftrightarrow> getContext_2d canvas = None) \<and>
   (\<forall>c. getContext_2d canvas = Some c \<longrightarrow>
      Renderer_new canvas =
        Inr \<lparr>ctx = c, width = canvas_width canvas, height = canvas_height canvas\<rparr>) \<and>
   (getContext_2d canvas = None \<longrightarrow>
      Renderer_new canvas = Inl (Error ''Failed to get 2D context from canvas'') \<and>
      Game_new canvas b = Inl (Error ''Failed to get 2D context from canvas'') \<and>
      main (Some canvas) now1 now2 b =
        Some (Inl (Error ''Failed to get 2D context from canvas'',
                   Logger_info ''Elemental Survivors - Starting...'' b)))"
  by (auto simp: Renderer_new_def Game_new_def main_def Let_def split: option.splits)

theorem renderer_throws_iff_no_context_witness:
  "isl (Renderer_new (example_canvas\<lparr>getContext_2d := None\<rparr>)) \<and>
   \<not> isl (Renderer_new example_canvas) \<and>
   main (Some (example_canvas\<lparr>getContext_2d := None\<rparr>)) 0 0 example_browser =
     Some (Inl (Error ''Failed to get 2D context from canvas'',
                example_browser\<lparr>console :=
                  [(Console_log, ''[INFO] Elemental Survivors - Starting...'')]\<rparr>))"
  using renderer_throws_iff_no_context [of "example_canvas\<lparr>getContext_2d := None\<rparr>" example_browser 0 0]
        renderer_throws_iff_no_context [of example_canvas example_browser 0 0]
  by (simp add: example_canvas_def example_browser_def Logger_info_def)

section \<open>Stopping\<close>

lemma run_animation_frames_stopped:
  assumes "\<not> running this"
  shows "run_animation_frames ts (this, b) =
           Some (this, b\<lparr>animation_frames := animation_frames b - length ts\<rparr>)"
  using assms
proof (induction ts arbitrary: b)
  case Nil
  then show ?case by simp
next
  case (Cons t ts)
  show ?case
  proof (cases "animation_frames b = 0")
    case True
    then have "run_animation_frame t (this, b) = Some (this, b)"
      by (simp add: run_animation_frame_def)
    then show ?thesis
      using Cons True by simp
  next
    case False
    then have "run_animation_frame t (this, b) =
                 Some (this, b\<lparr>animation_frames := animation_frames b - 1\<rparr>)"
      using Cons.prems by (simp add: run_animation_frame_def gameLoop_stopped)
    then show ?thesis
      using Cons by simp
  qed
qed

text \<open>
  Claim C7. After \<open>stop\<close>, an invocation of \<open>gameLoop\<close> returns with the game and
  the browser as they were: no update, no draw call and no new animation-frame request.
  Whatever callbacks were still registered run to no effect: after any number of
  animation frames the game and the browser are as \<open>stop\<close> left them, except that
  the callbacks that ran have left the queue.
\<close>

theorem no_step_after_stop:
  "gameLoop t (stop w) = Some (stop w) \<and>
   run_animation_frames ts (stop w) =
     Some (fst (stop w),
           (snd (stop w))\<lparr>animation_frames := animation_frames (snd (stop w)) - length ts\<rparr>)"
proof -
  obtain this b where w: "stop w = (this, b)"
    by (cases "stop w")
  then have "\<not> running this"
    by (auto simp: stop_def split: prod.splits)
  then show ?thesis
    using w gameLoop_stopped run_animation_frames_stopped by simp
qed

theorem no_step_after_stop_witness:
  "gameLoop 16 (stop (example_game, example_browser\<lparr>animation_frames := 1\<rparr>)) =
     Some (example_game\<lparr>running := False\<rparr>,
           example_browser\<lparr>animation_frames := 1,
                            console := [(Console_log, ''[INFO] Game stopped'')]\<rparr>) \<and>
   run_animation_frames [16, 32] (stop (example_game, example_browser\<lparr>animation_frames := 1\<rparr>)) =
     Some (example_game\<lparr>running := False\<rparr>,
           example_browser\<lparr>animation_frames := 0,
                            console := [(Console_log, ''[INFO] Game stopped'')]\<rparr>)"
  using no_step_after_stop [of 16 "(example_game, example_browser\<lparr>animation_frames := 1\<rparr>)" "[16, 32]"]
  by (simp add: stop_def example_browser_def Logger_info_def)

section \<open>The player stays on the screen\<close>

lemma clamp_number:
  assumes "v \<noteq> NaN" and "lo \<le> hi"
  shows "\<exists>c. Math_max (Finite lo) (Math_min (Finite hi) v) = Finite c \<and> lo \<le> c \<and> c \<le> hi"
  using assms by (cases v) auto

lemma js_plus_not_NaN: "p \<noteq> NaN \<Longrightarrow> js_plus p (Finite q) \<noteq> NaN"
  by (cases p) (simp_all add: js_result_not_NaN)

lemma js_times_Finite_bound:
  assumes "js_times (Finite s) dt = Finite m"
  shows "\<bar>m\<bar> < overflow_threshold"
proof (cases dt)
  case (Finite t)
  then show ?thesis
    using assms js_result_Finite_bound by simp
qed (use assms in \<open>auto split: if_splits\<close>)

lemma js_times_direction:
  assumes "\<bar>a\<bar> \<le> 1" and "\<bar>m\<bar> < overflow_threshold"
  shows "\<exists>q. js_times (Finite a) (Finite m) = Finite q"
proof -
  have "\<bar>a * m\<bar> \<le> 1 * \<bar>m\<bar>"
    unfolding abs_mult using assms(1) by (intro mult_right_mono) simp_all
  then have "\<bar>a * m\<bar> < overflow_threshold"
    using assms(2) by simp
  then show ?thesis
    by (simp add: js_result_finite)
qed

lemma update_on_screen:
  assumes W: "40 \<le> getWidth (renderer this)" and H: "40 \<le> getHeight (renderer this)"
    and m: "js_times (Finite (playerSpeed this)) deltaTime = Finite m"
    and px: "v_x (playerPosition this) \<noteq> NaN" and py: "v_y (playerPosition this) \<noteq> NaN"
  shows "\<exists>this' x y. update deltaTime this = Some this' \<and>
         renderer this' = renderer this \<and>
         playerSpeed this' = playerSpeed this \<and>
         playerPosition this' = \<lparr>v_x = Finite x, v_y = Finite y\<rparr> \<and>
         20 \<le> x \<and> x \<le> getWidth (renderer this) - 20 \<and>
         20 \<le> y \<and> y \<le> getHeight (renderer this) - 20"
proof -
  obtain a b where d: "getMovementDirection (input this) = Some \<lparr>v_x = Finite a, v_y = Finite b\<rparr>"
    and a: "\<bar>a\<bar> \<le> 1" and b: "\<bar>b\<bar> \<le> 1"
    using getMovementDirection_cases [of "input this"] by blast
  have mb: "\<bar>m\<bar> < overflow_threshold"
    using js_times_Finite_bound [OF m] .
  obtain qx qy where qx: "js_times (Finite a) (Finite m) = Finite qx"
    and qy: "js_times (Finite b) (Finite m) = Finite qy"
    using js_times_direction [OF a mb] js_times_direction [OF b mb] by blast
  have nx: "js_plus (v_x (playerPosition this)) (Finite qx) \<noteq> NaN"
    and ny: "js_plus (v_y (playerPosition this)) (Finite qy) \<noteq> NaN"
    using px py by (simp_all add: js_plus_not_NaN)
  have "20 \<le> getWidth (renderer this) - 20" and "20 \<le> getHeight (renderer this) - 20"
    using W H by simp_all
  then obtain x y where
    x: "Math_max (Finite 20) (Math_min (Finite (getWidth (renderer this) - 20))
          (js_plus (v_x (playerPosition this)) (Finite qx))) = Finite x"
       "20 \<le> x" "x \<le> getWidth (renderer this) - 20" and
    y: "Math_max (Finite 20) (Math_min (Finite (getHeight (renderer this) - 20))
          (js_plus (v_y (playerPosition this)) (Finite qy))) = Finite y"
       "20 \<le> y" "y \<le> getHeight (renderer this) - 20"
    using clamp_number [OF nx] clamp_number [OF ny] by blast
  show ?thesis
    using d m qx qy x y
    by (simp add: update_def Let_def Vector2_add_def Vector2_multiply_def)
qed

lemma Game_new_on_screen:
  assumes "40 \<le> canvas_width canvas" and "40 \<le> canvas_height canvas"
    and "Game_new canvas b = Inr (g, b')"
  shows "getWidth (renderer g) = canvas_width canvas \<and>
      getHeight (renderer g) = canvas_height canvas \<and>
      playerPosition g =
        \<lparr>v_x = Finite (canvas_width canvas / 2), v_y = Finite (canvas_height canvas / 2)\<rparr> \<and>
      20 \<le> canvas_width canvas / 2 \<and>
      canvas_width canvas / 2 \<le> canvas_width canvas - 20 \<and>
      20 \<le> canvas_height canvas / 2 \<and>
      canvas_height canvas / 2 \<le> canvas_height canvas - 20"
proof -
  obtain c where c: "getContext_2d canvas = Some c"
    using assms(3) by (auto simp: Game_new_def Renderer_new_def split: option.splits)
  then have g: "g = \<lparr>renderer = \<lparr>ctx = c, width = canvas_width canvas, height = canvas_height canvas\<rparr>,
                input = Input_new, running = False, lastTime = 0, fps = 0,
                frameCount = 0, fpsUpdateTime = 0,
                playerPosition = \<lparr>v_x = Finite (canvas_width canvas / 2),
                                   v_y = Finite (canvas_height canvas / 2)\<rparr>,
                playerSpeed = 200\<rparr>"
    using assms(3) by (simp add: Game_new_def Renderer_new_def getWidth_def getHeight_def)
  show ?thesis
    using assms(1,2) by (simp add: g getWidth_def getHeight_def)
qed

text \<open>
  Claim C9 (as amended). On a renderer at least 40 wide and 40 high, when the player
  position is not NaN and the step \<open>playerSpeed * deltaTime\<close> is a finite number,
  \<open>update\<close> returns for every set of held keys, and afterwards the player position
  is finite and satisfies \<open>20 \<le> x \<le> W - 20\<close> and \<open>20 \<le> y \<le> H - 20\<close>; the
  renderer and the speed are unchanged. The position \<open>(W / 2, H / 2)\<close> that the
  constructor sets on a canvas of these dimensions satisfies the bounds too.
\<close>

theorem player_stays_on_screen_in_range:
  "(40 \<le> getWidth (renderer this) \<and> 40 \<le> getHeight (renderer this) \<and>
    js_times (Finite (playerSpeed this)) deltaTime = Finite m \<and>
    v_x (playerPosition this) \<noteq> NaN \<and> v_y (playerPosition this) \<noteq> NaN \<longrightarrow>
      (\<exists>this' x y. update deltaTime this = Some this' \<and>
         renderer this' = renderer this \<and>
         playerSpeed this' = playerSpeed this \<and>
         playerPosition this' = \<lparr>v_x = Finite x, v_y = Finite y\<rparr> \<and>
         20 \<le> x \<and> x \<le> getWidth (renderer this) - 20 \<and>
         20 \<le> y \<and> y \<le> getHeight (renderer this) - 20)) \<and>
   (40 \<le> canvas_width canvas \<and> 40 \<le> canvas_height canvas \<and>
    Game_new canvas b = Inr (g, b') \<longrightarrow>
      getWidth (renderer g) = canvas_width canvas \<and>
      getHeight (renderer g) = canvas_height canvas \<and>
      playerPosition g =
        \<lparr>v_x = Finite (canvas_width canvas / 2), v_y = Finite (canvas_height canvas / 2)\<rparr> \<and>
      20 \<le> canvas_width canvas / 2 \<and>
      canvas_width canvas / 2 \<le> canvas_width canvas - 20 \<and>
      20 \<le> canvas_height canvas / 2 \<and>
      canvas_height canvas / 2 \<le> canvas_height canvas - 20)"
  using update_on_screen [of this deltaTime m] Game_new_on_screen [of canvas b g b']
  by blast

lemma direction_d:
  "getMovementDirection (input example_game) = Some \<lparr>v_x = Finite 1, v_y = Finite 0\<rparr>"
proof -
  have n: "net_keys (input example_game) = \<lparr>v_x = Finite 1, v_y = Finite 0\<rparr>"
    by (simp add: net_keys_def example_game_def isKeyPressed_def Let_def)
  have r: "in_range ((1::real) * 1)" "in_range ((0::real) * 0)" "in_range ((1::real) * 1 + 0 * 0)"
    "in_range (1 / sqrt ((1::real) * 1 + 0 * 0))" "in_range (0 / sqrt ((1::real) * 1 + 0 * 0))"
    by (simp_all add: in_range_moderate)
  have "Vector2_length \<lparr>v_x = Finite 1, v_y = Finite 0\<rparr> = Finite 1"
    using Vector2_length_exact [OF r(1-3)] by simp
  moreover have "Vector2_normalize \<lparr>v_x = Finite 1, v_y = Finite 0\<rparr>
                   = Some \<lparr>v_x = Finite 1, v_y = Finite 0\<rparr>"
    using Vector2_normalize_exact [OF r(1-3) _ r(4,5)] by simp
  ultimately show ?thesis
    by (simp add: getMovementDirection_def n Let_def)
qed

lemma update_example:
  "map_option playerPosition (update (Finite 1) example_game)
     = Some \<lparr>v_x = Finite 840, v_y = Finite 360\<rparr>"
  using direction_d
  by (simp add: update_def example_game_def Vector2_add_def Vector2_multiply_def
      getWidth_def getHeight_def Let_def js_result_in_range in_range_examples)

theorem player_stays_on_screen_in_range_witness:
  "(\<exists>this' x y. update (Finite 1) example_game = Some this' \<and>
      playerPosition this' = \<lparr>v_x = Finite x, v_y = Finite y\<rparr> \<and>
      20 \<le> x \<and> x \<le> 1260 \<and> 20 \<le> y \<and> y \<le> 700) \<and>
   (\<exists>g b'. Game_new example_canvas example_browser = Inr (g, b') \<and>
      playerPosition g = \<lparr>v_x = Finite 640, v_y = Finite 360\<rparr>)"
proof -
  have "\<exists>g b'. Game_new example_canvas example_browser = Inr (g, b')"
    by (simp add: Game_new_def Renderer_new_def example_canvas_def)
  then obtain g b' where g: "Game_new example_canvas example_browser = Inr (g, b')"
    by blast
  have dims: "40 \<le> getWidth (renderer example_game) \<and> 40 \<le> getHeight (renderer example_game)"
    by (simp add: example_game_def getWidth_def getHeight_def)
  have m: "js_times (Finite (playerSpeed example_game)) (Finite 1) = Finite 200"
    by (simp add: example_game_def js_result_in_range in_range_examples)
  have p: "v_x (playerPosition example_game) \<noteq> NaN \<and> v_y (playerPosition example_game) \<noteq> NaN"
    by (simp add: example_game_def)
  have c: "40 \<le> canvas_width example_canvas \<and> 40 \<le> canvas_height example_canvas"
    by (simp add: example_canvas_def)
  show ?thesis
    using player_stays_on_screen_in_range
            [of example_game "Finite 1" 200 example_canvas example_browser g b'] g dims m p c
    by (auto simp: example_game_def example_canvas_def getWidth_def getHeight_def)
qed

text \<open>
  Claim C9 fails as stated: with the key \<open>d\<close> held and a delta time of \<open>1e307\<close>
  the step \<open>playerSpeed * deltaTime\<close> overflows to infinity, the vertical component
  of the movement is \<open>0 * Infinity\<close>, which is NaN, and \<open>Math.min\<close> and
  \<open>Math.max\<close> pass the NaN on: the player's \<open>y\<close> is NaN, on a screen of 1280 by
  720.
\<close>

theorem player_position_NaN:
  "map_option playerPosition (update (Finite (10 ^ 307)) example_game)
     = Some \<lparr>v_x = Finite 1260, v_y = NaN\<rparr> \<and>
   40 \<le> getWidth (renderer example_game) \<and> 40 \<le> getHeight (renderer example_game)"
proof -
  have "overflow_threshold \<le> 200 * (10::real) ^ 307"
    by (simp add: overflow_threshold_def)
  then have "js_times (Finite 200) (Finite (10 ^ 307)) = Infinity"
    by (simp add: js_result_def)
  then show ?thesis
    using direction_d
    by (simp add: update_def example_game_def Vector2_add_def Vector2_multiply_def
        getWidth_def getHeight_def Let_def)
qed

section \<open>Starting twice\<close>

lemma start_running:
  assumes "start now1 now2 w = Some w'"
  shows "running (fst w')"
proof (cases w)
  case (Pair this b)
  show ?thesis
  proof (cases "running this")
    case True
    then show ?thesis
      using assms Pair by (auto simp: start_def)
  next
    case False
    have r: "running (this\<lparr>running := True, lastTime := now1\<rparr>)"
      by simp
    obtain this' where u: "update (Finite ((now2 - now1) / 1000))
        (updateFPS ((now2 - now1) / 1000) (this\<lparr>running := True, lastTime := now2\<rparr>)) = Some this'"
      and "gameLoop now2 (this\<lparr>running := True, lastTime := now1\<rparr>, b) =
             Some (this', requestAnimationFrame
                     (render this' (b\<lparr>update_calls := update_calls b @ [(now2 - now1) / 1000]\<rparr>)))"
      using gameLoop_running [OF r, of now2 b] by auto
    then have "fst w' = this'"
      using assms Pair False by (auto simp: start_def)
    moreover have "running this'"
      using update_flags [OF u] by simp
    ultimately show ?thesis
      by simp
  qed
qed

lemma start_again:
  assumes "start now1 now2 w = Some (this', b')"
  shows "start now3 now4 (this', b') = Some (this', Logger_warn ''Game is already running'' b')"
proof -
  from start_running [OF assms] have "running this'"
    by simp
  then show ?thesis
    by (simp add: start_def)
qed

text \<open>
  Claim C10. \<open>start\<close> on a running game returns the game with every field as it was
  (the running flag and \<open>lastTime\<close> among them); the browser gets the warning on the
  console and nothing else: no animation frame is requested, nothing is drawn and
  \<open>update\<close> is not called, so no second loop starts. After any \<open>start\<close> that
  returned, a further \<open>start\<close> is such a no-op.
\<close>

theorem start_while_running_is_noop:
  "(running this \<longrightarrow>
      start now1 now2 (this, b) = Some (this, Logger_warn ''Game is already running'' b) \<and>
      animation_frames (Logger_warn ''Game is already running'' b) = animation_frames b \<and>
      draw_calls (Logger_warn ''Game is already running'' b) = draw_calls b \<and>
      update_calls (Logger_warn ''Game is already running'' b) = update_calls b) \<and>
   (start now1 now2 w = Some (this', b') \<longrightarrow>
      start now3 now4 (this', b') = Some (this', Logger_warn ''Game is already running'' b'))"
  using start_again [of now1 now2 w this' b' now3 now4]
  by (simp add: start_def)

theorem start_while_running_is_noop_witness:
  "start 5000 5016 (example_game, example_browser) =
     Some (example_game,
           example_browser\<lparr>console := [(Console_warn, ''[WARN] Game is already running'')]\<rparr>) \<and>
   (\<exists>this' b'. start 0 16 (example_game\<lparr>running := False\<rparr>, example_browser) = Some (this', b') \<and>
      start 5000 5016 (this', b') = Some (this', Logger_warn ''Game is already running'' b') \<and>
      animation_frames b' = 1)"
proof -
  have r: "running example_game"
    by (simp add: example_game_def)
  have r': "running (example_game\<lparr>running := True, lastTime := 0\<rparr>)"
    by simp
  obtain this' b' where s: "start 0 16 (example_game\<lparr>running := False\<rparr>, example_browser) = Some (this', b')"
    and a: "animation_frames b' = 1"
    using gameLoop_running [OF r', of 16 example_browser]
    by (auto simp: start_def requestAnimationFrame_def example_browser_def)
  show ?thesis
    using start_while_running_is_noop [of example_game 5000 5016 example_browser
            "(example_game\<lparr>running := False\<rparr>, example_browser)" this' b' 5000 5016]
          start_while_running_is_noop [of example_game 0 16 example_browser
            "(example_game\<lparr>running := False\<rparr>, example_browser)" this' b' 5000 5016]
          r s a
    by (simp add: Logger_warn_def example_browser_def)
qed

section \<open>The spawn system\<close>

lemma activeEnemies_spawnEnemy:
  "activeEnemies (spawnEnemy random playerPos em) = activeEnemies em + 1"
  by (simp add: spawnEnemy_def addEntity_def BasicEnemy_new_def activeEnemies_def Let_def)

lemma SpawnSystem_update_cases:
  "SpawnSystem_update deltaTime playerPos random (this, em) =
     (if spawnTimer this + deltaTime
           \<ge> getSpawnInterval (this\<lparr>gameTime := gameTime this + deltaTime\<rparr>)
      then (\<lparr>spawnTimer = 0, gameTime = gameTime this + deltaTime\<rparr>,
            spawnEnemy random playerPos em)
      else (\<lparr>spawnTimer = spawnTimer this + deltaTime, gameTime = gameTime this + deltaTime\<rparr>,
            em))"
  by (simp add: SpawnSystem_update_def getSpawnInterval_def Let_def)

lemma getSpawnInterval_bounds:
  assumes "0 \<le> gameTime this"
  shows "0.3 \<le> getSpawnInterval this" and "getSpawnInterval this \<le> 2"
proof -
  have "0 \<le> min (gameTime this / 600) 1" "min (gameTime this / 600) 1 \<le> 1"
    using assms by simp_all
  then show "0.3 \<le> getSpawnInterval this" and "getSpawnInterval this \<le> 2"
    by (simp_all add: getSpawnInterval_def Let_def)
qed

text \<open>
  Claim C3 (as amended). \<open>update\<close> adds \<open>deltaTime\<close> to the game time and to the
  spawn timer. When the timer has then reached the current interval, it spawns exactly
  one enemy, whatever the number of intervals that elapsed, and sets the timer to 0;
  otherwise it spawns nothing and the timer keeps the accumulated time.
\<close>

theorem spawn_resets_timer_to_zero:
  "(spawnTimer this + deltaTime \<ge> getSpawnInterval (this\<lparr>gameTime := gameTime this + deltaTime\<rparr>) \<longrightarrow>
      SpawnSystem_update deltaTime playerPos random (this, em) =
        (\<lparr>spawnTimer = 0, gameTime = gameTime this + deltaTime\<rparr>,
         em @ [BasicEnemy_new
                 \<lparr>v_x = js_plus (v_x playerPos) (Finite (cos (random * pi * 2) * 800)),
                  v_y = js_plus (v_y playerPos) (Finite (sin (random * pi * 2) * 800))\<rparr>])) \<and>
   (spawnTimer this + deltaTime < getSpawnInterval (this\<lparr>gameTime := gameTime this + deltaTime\<rparr>) \<longrightarrow>
      SpawnSystem_update deltaTime playerPos random (this, em) =
        (\<lparr>spawnTimer = spawnTimer this + deltaTime, gameTime = gameTime this + deltaTime\<rparr>, em))"
  by (simp add: SpawnSystem_update_cases spawnEnemy_def addEntity_def Let_def)

theorem spawn_resets_timer_to_zero_witness:
  "SpawnSystem_update 6 origin 0 (SpawnSystem_new, []) =
     (\<lparr>spawnTimer = 0, gameTime = 6\<rparr>, [BasicEnemy_new \<lparr>v_x = Finite 800, v_y = Finite 0\<rparr>]) \<and>
   SpawnSystem_update 1 origin 0 (SpawnSystem_new, []) = (\<lparr>spawnTimer = 1, gameTime = 1\<rparr>, [])"
  using spawn_resets_timer_to_zero [of SpawnSystem_new 6 origin 0 "[]"]
        spawn_resets_timer_to_zero [of SpawnSystem_new 1 origin 0 "[]"]
  by (simp add: SpawnSystem_new_def origin_def getSpawnInterval_def Let_def
      js_result_in_range in_range_examples)

text \<open>
  Claim C3 fails as stated: an update of a new spawn system with a delta time of 6
  seconds, in which the interval of 1.983 seconds elapsed three times with time to
  spare, spawns one enemy and leaves the timer at exactly 0.
\<close>

theorem spawn_excess_discarded:
  "SpawnSystem_update 6 origin 0 (SpawnSystem_new, []) =
     (\<lparr>spawnTimer = 0, gameTime = 6\<rparr>, [BasicEnemy_new \<lparr>v_x = Finite 800, v_y = Finite 0\<rparr>]) \<and>
   getSpawnInterval \<lparr>spawnTimer = 6, gameTime = 6\<rparr> = 1.983 \<and>
   3 * (1.983::real) \<le> 6 \<and> (6::real) - 3 * 1.983 \<noteq> 0"
  by (simp add: SpawnSystem_update_def SpawnSystem_new_def origin_def getSpawnInterval_def
      spawnEnemy_def addEntity_def Let_def js_result_in_range in_range_examples)

section \<open>The population\<close>

lemma two_second_ticks:
  assumes "spawnTimer this = 0" and "0 \<le> gameTime this"
  shows "activeEnemies (snd (SpawnSystem_run (replicate n (2, random)) playerPos (this, em)))
           = activeEnemies em + n"
  using assms
proof (induction n arbitrary: this em)
  case 0
  then show ?case by simp
next
  case (Suc n)
  have "getSpawnInterval (this\<lparr>gameTime := gameTime this + 2\<rparr>) \<le> 2"
    using Suc.prems by (intro getSpawnInterval_bounds) simp
  then have step: "SpawnSystem_update 2 playerPos random (this, em) =
      (\<lparr>spawnTimer = 0, gameTime = gameTime this + 2\<rparr>, spawnEnemy random playerPos em)"
    using Suc.prems by (simp add: SpawnSystem_update_cases)
  have "activeEnemies (snd (SpawnSystem_run (replicate n (2, random)) playerPos
           (\<lparr>spawnTimer = 0, gameTime = gameTime this + 2\<rparr>, spawnEnemy random playerPos em)))
        = activeEnemies (spawnEnemy random playerPos em) + n"
    using Suc.prems by (intro Suc.IH) simp_all
  then show ?case
    by (simp add: step activeEnemies_spawnEnemy)
qed

text \<open>
  Claim C4. The code does not keep the population under the cap: \<open>spawnEnemy\<close> never
  reads \<open>MAX_ENEMIES\<close>, and 101 ticks of 2 seconds on a new spawn system, in which no
  enemy is removed, leave 101 active enemies.
\<close>

theorem population_exceeds_cap:
  "activeEnemies (snd (SpawnSystem_run (replicate 101 (2, 0)) origin (SpawnSystem_new, []))) = 101 \<and>
   \<not> 101 \<le> EnemyConfig_MAX_ENEMIES"
  using two_second_ticks [of SpawnSystem_new 101 0 origin "[]"]
  by (simp add: SpawnSystem_new_def activeEnemies_def EnemyConfig_MAX_ENEMIES_def)

end
